theory Spec2Isabelle
  imports Main "HOL-Library.Sublist"
begin

section \<open>Strings and header maps\<close>

text \<open>
  Go strings are byte strings; \<^typ>\<open>string\<close> is a list of 8-bit characters. The helpers
  below are the parts of \<^verbatim>\<open>strings\<close>, \<^verbatim>\<open>net/textproto\<close> and \<^verbatim>\<open>net/http\<close> that
  \<^verbatim>\<open>pkg/upstream/http.go\<close> calls on header names and values.
\<close>

definition isUpperASCII :: "char \<Rightarrow> bool" where
  "isUpperASCII c = (65 \<le> (of_char c :: nat) \<and> (of_char c :: nat) \<le> 90)"

definition isLowerASCII :: "char \<Rightarrow> bool" where
  "isLowerASCII c = (97 \<le> (of_char c :: nat) \<and> (of_char c :: nat) \<le> 122)"

definition isDigitASCII :: "char \<Rightarrow> bool" where
  "isDigitASCII c = (48 \<le> (of_char c :: nat) \<and> (of_char c :: nat) \<le> 57)"

definition toLowerASCII :: "char \<Rightarrow> char" where
  "toLowerASCII c = (if isUpperASCII c then char_of ((of_char c :: nat) + 32) else c)"

definition toUpperASCII :: "char \<Rightarrow> char" where
  "toUpperASCII c = (if isLowerASCII c then char_of ((of_char c :: nat) - 32) else c)"

text \<open>
  \<^verbatim>\<open>strings.EqualFold(s, t)\<close>: equality of the two whole strings under simple case folding.
  The only second argument in this package is \<^verbatim>\<open>"upgrade"\<close>, whose letters fold only
  within ASCII (of the ASCII letters only k and s have a fold partner outside ASCII), so
  on the calls made here the library function is equality after A-Z is mapped to a-z.
\<close>

definition EqualFold :: "string \<Rightarrow> string \<Rightarrow> bool" where
  "EqualFold s t = (map toLowerASCII s = map toLowerASCII t)"

text \<open>
  \<^verbatim>\<open>textproto.CanonicalMIMEHeaderKey\<close>: a key made of header-field bytes only gets an
  upper-case first letter and an upper-case letter after each dash, every other letter in
  lower case; any other key is returned as it is.
\<close>

definition validHeaderFieldByte :: "char \<Rightarrow> bool" where
  "validHeaderFieldByte c =
     (isUpperASCII c \<or> isLowerASCII c \<or> isDigitASCII c \<or>
      (of_char c :: nat) \<in> {33, 35, 36, 37, 38, 39, 42, 43, 45, 46, 94, 95, 96, 124, 126})"

fun canonicalize :: "bool \<Rightarrow> string \<Rightarrow> string" where
  "canonicalize upper [] = []"
| "canonicalize upper (c # cs) =
     (let c' = (if upper then toUpperASCII c else toLowerASCII c)
      in c' # canonicalize (c' = CHR ''-'') cs)"

definition CanonicalMIMEHeaderKey :: "string \<Rightarrow> string" where
  "CanonicalMIMEHeaderKey s = (if list_all validHeaderFieldByte s then canonicalize True s else s)"

text \<open>
  \<^verbatim>\<open>http.Header\<close> is \<^verbatim>\<open>map[string][]string\<close>. \<^verbatim>\<open>Get\<close> returns the first value stored under
  the canonical form of the key, or the empty string; \<^verbatim>\<open>Set\<close> replaces the values under
  the canonical form of the key by the single value given. The header maps of a request
  delivered by the server and of its response writer are allocated, so \<^verbatim>\<open>Set\<close> does not
  meet a nil map.
\<close>

type_synonym header = "string \<rightharpoonup> string list"

definition header_Get :: "header \<Rightarrow> string \<Rightarrow> string" where
  "header_Get h k =
     (case h (CanonicalMIMEHeaderKey k) of
        None \<Rightarrow> ''''
      | Some [] \<Rightarrow> ''''
      | Some (v # _) \<Rightarrow> v)"

definition header_Set :: "header \<Rightarrow> string \<Rightarrow> string \<Rightarrow> header" where
  "header_Set h k v = h(CanonicalMIMEHeaderKey k \<mapsto> [v])"

section \<open>Data model\<close>

text \<open>\<^verbatim>\<open>url.URL\<close>, with the fields that the directors read or write.\<close>

record url =
  Scheme :: string
  Opaque :: string
  URL_Host :: string
  Path :: string
  RawPath :: string
  ForceQuery :: bool
  RawQuery :: string

text \<open>
  Modelled from the spec: \<^verbatim>\<open>middleware.RequestScope\<close> (package \<^verbatim>\<open>pkg/apis/middleware\<close>, not
  among the source files), the per-request metadata object with an "upstream identifier"
  field that the Dispatcher writes. Its other fields are neither read nor written here.
\<close>

record requestScope =
  Upstream :: string

text \<open>
  \<^verbatim>\<open>http.Request\<close>. \<^verbatim>\<open>Host\<close> is the Host of the request as sent by the client,
  \<^verbatim>\<open>RequestURI\<close> the unmodified target of the request line. \<^verbatim>\<open>Scope\<close> is the pointer
  to the request scope kept in the request's context, \<open>None\<close> when no scope was injected.
\<close>

record request =
  Method :: string
  URL :: url
  Header :: header
  Host :: string
  RequestURI :: string
  Scope :: "requestScope option"

text \<open>
  Modelled from the spec: \<^verbatim>\<open>middleware.GetRequestScope\<close> (same missing package) returns the
  request scope present on the request, or nil.
\<close>

definition GetRequestScope :: "request \<Rightarrow> requestScope option" where
  "GetRequestScope req = Scope req"

text \<open>\<^verbatim>\<open>http.ResponseWriter\<close>: its header map, the status written (if any) and the body bytes.\<close>

record responseWriter =
  rwHeader :: header
  Status :: "nat option"
  Body :: string

datatype go_error = Error string

text \<open>\<^verbatim>\<open>ProxyErrorHandler\<close>: \<^verbatim>\<open>func(http.ResponseWriter, *http.Request, error)\<close>.\<close>

type_synonym ProxyErrorHandler = "responseWriter \<Rightarrow> request \<Rightarrow> go_error \<Rightarrow> responseWriter"

text \<open>\<^verbatim>\<open>time.Duration\<close> counts nanoseconds.\<close>

type_synonym duration = int

definition Second :: duration where
  "Second = 1000000000"

text \<open>
  \<^verbatim>\<open>http.Transport\<close>, with the fields that the source sets; a composite literal leaves
  every field it does not name at its zero value.
\<close>

datatype proxyFunc = ProxyFromEnvironment

record dialer =
  Timeout :: duration
  KeepAlive :: duration

record tls_Config =
  InsecureSkipVerify :: bool

record transport =
  Proxy :: "proxyFunc option"
  DialContext :: "dialer option"
  ForceAttemptHTTP2 :: bool
  MaxIdleConns :: int
  IdleConnTimeout :: duration
  TLSHandshakeTimeout :: duration
  ExpectContinueTimeout :: duration
  TLSClientConfig :: "tls_Config option"

definition zeroTransport :: transport where
  "zeroTransport =
     \<lparr>Proxy = None, DialContext = None, ForceAttemptHTTP2 = False, MaxIdleConns = 0,
      IdleConnTimeout = 0, TLSHandshakeTimeout = 0, ExpectContinueTimeout = 0,
      TLSClientConfig = None\<rparr>"

text \<open>
  \<^verbatim>\<open>httputil.ReverseProxy\<close>: the four fields that the source configures. A nil
  \<^verbatim>\<open>Transport\<close> or \<^verbatim>\<open>ErrorHandler\<close> is \<open>None\<close>. The director mutates the request it is
  given; here it returns the request as it leaves it.
\<close>

record reverseProxy =
  Director :: "request \<Rightarrow> request"
  Transport :: "transport option"
  FlushInterval :: duration
  ErrorHandler :: "ProxyErrorHandler option"

text \<open>\<^verbatim>\<open>options.Upstream\<close> and \<^verbatim>\<open>options.SignatureData\<close>: the fields that the source reads.\<close>

record upstreamOptions =
  ID :: string
  InsecureSkipTLSVerify :: bool
  PassHostHeader :: "bool option"
  ProxyWebSockets :: "bool option"
  UpstreamFlushInterval :: "duration option"

type_synonym crypto_Hash = nat

record signatureData =
  Hash :: crypto_Hash
  Key :: string

text \<open>
  \<^verbatim>\<open>hmacauth.HmacAuth\<close> is an interface; the Dispatcher calls its method \<^verbatim>\<open>SignRequest\<close>
  only. An interface value is the record of its methods.
\<close>

record HmacAuth =
  SignRequest :: "request \<Rightarrow> request"

text \<open>
  What the package takes from outside and this development leaves open:
  \<^item> \<^verbatim>\<open>joinURLPath\<close> of \<^verbatim>\<open>net/http/httputil\<close>, which joins the target's and the request's
    paths into the new \<^verbatim>\<open>Path\<close> and \<^verbatim>\<open>RawPath\<close>;
  \<^item> \<^verbatim>\<open>URL.EscapedPath\<close> of \<^verbatim>\<open>net/url\<close>;
  \<^item> the keyed digest that \<^verbatim>\<open>hmacauth\<close> computes for a request from the hash algorithm, the
    key and the list of header names to sign (its method \<^verbatim>\<open>RequestSignature\<close>);
  \<^item> the constant \<^verbatim>\<open>options.DefaultUpstreamFlushInterval\<close>.
  Every theorem below holds for all values of these.
\<close>

record externals =
  joinURLPath :: "url \<Rightarrow> url \<Rightarrow> string \<times> string"
  EscapedPath :: "url \<Rightarrow> string"
  RequestSignature :: "crypto_Hash \<Rightarrow> string \<Rightarrow> string list \<Rightarrow> request \<Rightarrow> string"
  DefaultUpstreamFlushInterval :: duration

section \<open>The libraries' side\<close>

text \<open>
  The functions of \<^verbatim>\<open>hmacauth\<close>, \<^verbatim>\<open>net/http/httputil\<close>, \<^verbatim>\<open>net/url\<close> and \<^verbatim>\<open>net/http\<close> that the
  package calls, or that run on what it builds. They are not part of the repository; the
  definitions follow the libraries' documented behaviour.
\<close>

text \<open>
  \<^verbatim>\<open>hmacauth.NewHmacAuth(hash, key, header, headers)\<close>, for a hash algorithm that is
  linked into the program: the signer whose \<^verbatim>\<open>SignRequest\<close> sets the header \<^verbatim>\<open>header\<close> of
  the request to the request's signature.
\<close>

definition NewHmacAuth ::
  "externals \<Rightarrow> crypto_Hash \<Rightarrow> string \<Rightarrow> string \<Rightarrow> string list \<Rightarrow> HmacAuth" where
  "NewHmacAuth X hash key hdr headers =
     \<lparr>SignRequest = (\<lambda>req.
        req\<lparr>Header := header_Set (Header req) hdr (RequestSignature X hash key headers req)\<rparr>)\<rparr>"

text \<open>
  \<^verbatim>\<open>httputil.NewSingleHostReverseProxy(target)\<close>: a reverse proxy with no transport, no
  flush interval and no error handler of its own, whose director points the request's URL
  at the target: scheme and host of the target, the joined paths, and the target's query
  put in front of the request's query. It does not touch the request's \<^verbatim>\<open>Host\<close> or
  \<^verbatim>\<open>RequestURI\<close>. (Releases of the library before Go 1.20 let the same director also put
  an empty User-Agent header on a request that has none; nothing below reads the headers
  of a request after the director.)
\<close>

definition rewriteRequestURL :: "externals \<Rightarrow> url \<Rightarrow> request \<Rightarrow> request" where
  "rewriteRequestURL X target req =
     (let targetQuery = RawQuery target;
          u = URL req;
          (p, rp) = joinURLPath X target u
      in req\<lparr>URL := u\<lparr>Scheme := Scheme target, URL_Host := URL_Host target,
                         Path := p, RawPath := rp,
                         RawQuery := (if targetQuery = '''' \<or> RawQuery u = ''''
                                      then targetQuery @ RawQuery u
                                      else targetQuery @ ''&'' @ RawQuery u)\<rparr>\<rparr>)"

definition NewSingleHostReverseProxy :: "externals \<Rightarrow> url \<Rightarrow> reverseProxy" where
  "NewSingleHostReverseProxy X target =
     \<lparr>Director = rewriteRequestURL X target, Transport = None, FlushInterval = 0,
      ErrorHandler = None\<rparr>"

text \<open>
  \<^verbatim>\<open>URL.RequestURI()\<close>: the target that the transport writes on the request line of the
  forwarded request. An opaque URL is written as its opaque part (with the scheme in
  front when it starts with two slashes), any other as its escaped path; a query is
  appended when there is one or when \<^verbatim>\<open>ForceQuery\<close> is set.
\<close>

definition url_RequestURI :: "externals \<Rightarrow> url \<Rightarrow> string" where
  "url_RequestURI X u =
     (let result =
            (if Opaque u = ''''
             then (if EscapedPath X u = '''' then ''/'' else EscapedPath X u)
             else if prefix ''//'' (Opaque u) then Scheme u @ '':'' @ Opaque u
             else Opaque u)
      in if ForceQuery u \<or> RawQuery u \<noteq> '''' then result @ ''?'' @ RawQuery u else result)"

text \<open>
  \<^verbatim>\<open>ResponseWriter.WriteHeader(code)\<close> sends the status line once; a second call is ignored.
  \<^verbatim>\<open>ReverseProxy.ServeHTTP\<close>, when the round trip to the upstream returns an error, calls
  the proxy's error handler if it has one and otherwise its default handler, which logs
  the error and writes status 502 (Bad Gateway) and nothing else; then it returns.
  \<open>roundTripFailed\<close> is that branch: the response writer afterwards, and the calls made to
  the configured handler.
\<close>

definition StatusBadGateway :: nat where
  "StatusBadGateway = 502"

definition WriteHeader :: "responseWriter \<Rightarrow> nat \<Rightarrow> responseWriter" where
  "WriteHeader rw code = (case Status rw of None \<Rightarrow> rw\<lparr>Status := Some code\<rparr> | Some _ \<Rightarrow> rw)"

definition defaultErrorHandler :: ProxyErrorHandler where
  "defaultErrorHandler rw req err = WriteHeader rw StatusBadGateway"

definition roundTripFailed ::
  "reverseProxy \<Rightarrow> responseWriter \<Rightarrow> request \<Rightarrow> go_error \<Rightarrow> responseWriter \<times> (request \<times> go_error) list" where
  "roundTripFailed p rw outreq err =
     (case ErrorHandler p of
        Some h \<Rightarrow> (h rw outreq err, [(outreq, err)])
      | None \<Rightarrow> (defaultErrorHandler rw outreq err, []))"

section \<open>pkg/upstream/http.go\<close>

definition SignatureHeader :: string where
  "SignatureHeader = ''GAP-Signature''"

definition SignatureHeaders :: "string list" where
  "SignatureHeaders =
     [''Content-Length'', ''Content-Md5'', ''Content-Type'', ''Date'', ''Authorization'',
      ''X-Forwarded-User'', ''X-Forwarded-Email'', ''X-Forwarded-Preferred-User'',
      ''X-Forwarded-Access-Token'', ''Cookie'', ''Gap-Auth'']"

text \<open>
  \<^verbatim>\<open>setProxyDirector\<close> wraps the proxy's director: the wrapped director runs first, then
  the URL's opaque part becomes the request's \<^verbatim>\<open>RequestURI\<close> and the query fields are
  cleared.
\<close>

definition setProxyDirector :: "reverseProxy \<Rightarrow> reverseProxy" where
  "setProxyDirector proxy =
     (let director = Director proxy
      in proxy\<lparr>Director := (\<lambda>req.
           let req = director req
           in req\<lparr>URL := (URL req)\<lparr>Opaque := RequestURI req, RawQuery := '''',
                                     ForceQuery := False\<rparr>\<rparr>)\<rparr>)"

text \<open>
  \<^verbatim>\<open>setProxyUpstreamHostHeader\<close> wraps the proxy's director: the wrapped director runs
  first, then the request's \<^verbatim>\<open>Host\<close> becomes the target's host.
\<close>

definition setProxyUpstreamHostHeader :: "reverseProxy \<Rightarrow> url \<Rightarrow> reverseProxy" where
  "setProxyUpstreamHostHeader proxy target =
     (let director = Director proxy
      in proxy\<lparr>Director := (\<lambda>req.
           let req = director req
           in req\<lparr>Host := URL_Host target\<rparr>)\<rparr>)"

definition defaultTransport :: transport where
  "defaultTransport =
     \<lparr>Proxy = Some ProxyFromEnvironment,
      DialContext = Some \<lparr>Timeout = 0 * Second, KeepAlive = 0 * Second\<rparr>,
      ForceAttemptHTTP2 = True,
      MaxIdleConns = 100,
      IdleConnTimeout = 90 * Second,
      TLSHandshakeTimeout = 10 * Second,
      ExpectContinueTimeout = 1 * Second,
      TLSClientConfig = None\<rparr>"

definition insecureTransport :: transport where
  "insecureTransport = zeroTransport\<lparr>TLSClientConfig := Some \<lparr>InsecureSkipVerify = True\<rparr>\<rparr>"

definition newReverseProxy ::
  "externals \<Rightarrow> url \<Rightarrow> upstreamOptions \<Rightarrow> ProxyErrorHandler option \<Rightarrow> reverseProxy" where
  "newReverseProxy X target upstream errorHandler =
     (let proxy = NewSingleHostReverseProxy X target;
          proxy = (case UpstreamFlushInterval upstream of
                     Some d \<Rightarrow> proxy\<lparr>FlushInterval := d\<rparr>
                   | None \<Rightarrow> proxy\<lparr>FlushInterval := DefaultUpstreamFlushInterval X\<rparr>);
          proxy = proxy\<lparr>Transport := Some defaultTransport\<rparr>;
          proxy = (if InsecureSkipTLSVerify upstream
                   then proxy\<lparr>Transport := Some insecureTransport\<rparr> else proxy);
          proxy = setProxyDirector proxy;
          proxy = (if PassHostHeader upstream \<noteq> None \<and> \<not> the (PassHostHeader upstream)
                   then setProxyUpstreamHostHeader proxy target else proxy);
          proxy = (case errorHandler of
                     Some h \<Rightarrow> proxy\<lparr>ErrorHandler := Some h\<rparr>
                   | None \<Rightarrow> proxy)
      in proxy)"

definition newWebSocketReverseProxy :: "externals \<Rightarrow> url \<Rightarrow> bool \<Rightarrow> reverseProxy" where
  "newWebSocketReverseProxy X u skipTLSVerify =
     (let wsProxy = NewSingleHostReverseProxy X u
      in if skipTLSVerify then wsProxy\<lparr>Transport := Some insecureTransport\<rparr> else wsProxy)"

text \<open>\<^verbatim>\<open>httpUpstreamProxy\<close>, the Dispatcher for one upstream.\<close>

record httpUpstreamProxy =
  upstream :: string
  handler :: reverseProxy
  wsHandler :: "reverseProxy option"
  auth :: "HmacAuth option"

definition newHTTPUpstreamProxy ::
  "externals \<Rightarrow> upstreamOptions \<Rightarrow> url \<Rightarrow> signatureData option \<Rightarrow> ProxyErrorHandler option
     \<Rightarrow> httpUpstreamProxy" where
  "newHTTPUpstreamProxy X upstreamOpts u sigData errorHandler =
     (let u = u\<lparr>Path := ''''\<rparr>;
          proxy = newReverseProxy X u upstreamOpts errorHandler;
          wsProxy = (if ProxyWebSockets upstreamOpts = None \<or> the (ProxyWebSockets upstreamOpts)
                     then Some (newWebSocketReverseProxy X u (InsecureSkipTLSVerify upstreamOpts))
                     else None);
          a = (case sigData of
                 Some sd \<Rightarrow> Some (NewHmacAuth X (Hash sd) (Key sd) SignatureHeader SignatureHeaders)
               | None \<Rightarrow> None)
      in \<lparr>upstream = ID upstreamOpts, handler = proxy, wsHandler = wsProxy, auth = a\<rparr>)"

text \<open>
  \<^verbatim>\<open>httpUpstreamProxy.ServeHTTP\<close>. Writing through a nil scope panics. Otherwise the
  method ends in a call of one of the two handlers; the result is that call: which handler
  field is invoked, the handler, and the response writer and request it receives. The
  request carries the scope and the headers as the method has left them.
\<close>

datatype panic = NilPointerDereference

datatype route = WebSocketProxy | PlainProxy

record delegation =
  via :: route
  callee :: reverseProxy
  writer :: responseWriter
  forwarded :: request

definition ServeHTTP ::
  "httpUpstreamProxy \<Rightarrow> responseWriter \<Rightarrow> request \<Rightarrow> panic + delegation" where
  "ServeHTTP h rw req =
     (case GetRequestScope req of
        None \<Rightarrow> Inl NilPointerDereference
      | Some scope \<Rightarrow>
          (let req = req\<lparr>Scope := Some (scope\<lparr>Upstream := upstream h\<rparr>)\<rparr>;
               req = (case auth h of
                        Some a \<Rightarrow>
                          SignRequest a
                            (req\<lparr>Header := header_Set (Header req) ''GAP-Auth''
                                               (header_Get (rwHeader rw) ''GAP-Auth'')\<rparr>)
                      | None \<Rightarrow> req)
           in if wsHandler h \<noteq> None
                 \<and> EqualFold (header_Get (Header req) ''Connection'') ''upgrade''
                 \<and> header_Get (Header req) ''Upgrade'' = ''websocket''
              then Inr \<lparr>via = WebSocketProxy, callee = the (wsHandler h), writer = rw,
                        forwarded = req\<rparr>
              else Inr \<lparr>via = PlainProxy, callee = handler h, writer = rw, forwarded = req\<rparr>))"

section \<open>Vocabulary of the specification\<close>

text \<open>
  What a call of \<open>ServeHTTP\<close> lets one observe: the handler field it invoked, the handler
  itself and the request handed to it; nothing when it panicked.
\<close>

definition routed :: "panic + delegation \<Rightarrow> route option" where
  "routed r = (case r of Inl _ \<Rightarrow> None | Inr d \<Rightarrow> Some (via d))"

definition handed :: "panic + delegation \<Rightarrow> request option" where
  "handed r = (case r of Inl _ \<Rightarrow> None | Inr d \<Rightarrow> Some (forwarded d))"

definition invoked :: "panic + delegation \<Rightarrow> reverseProxy option" where
  "invoked r = (case r of Inl _ \<Rightarrow> None | Inr d \<Rightarrow> Some (callee d))"

text \<open>
  The rewrite steps of the Director as the specification words them: the step that
  substitutes the raw request-line target for the parsed URL and clears the parsed query
  fields, the step that overwrites the forwarded Host with the target's host, and their
  composition in order after the base rewrite of the library.
\<close>

definition preserveEscaping :: "request \<Rightarrow> request" where
  "preserveEscaping req =
     req\<lparr>URL := (URL req)\<lparr>Opaque := RequestURI req, RawQuery := '''', ForceQuery := False\<rparr>\<rparr>"

definition overrideHost :: "url \<Rightarrow> request \<Rightarrow> request" where
  "overrideHost target req = req\<lparr>Host := URL_Host target\<rparr>"

definition composedDirector :: "externals \<Rightarrow> url \<Rightarrow> upstreamOptions \<Rightarrow> request \<Rightarrow> request" where
  "composedDirector X target upstreamOpts =
     (if PassHostHeader upstreamOpts = Some False
      then overrideHost target \<circ> (preserveEscaping \<circ> Director (NewSingleHostReverseProxy X target))
      else preserveEscaping \<circ> Director (NewSingleHostReverseProxy X target))"

text \<open>A percent-encoded slash; the two hexadecimal digits may be written in either case.\<close>

definition containsEncodedSlash :: "string \<Rightarrow> bool" where
  "containsEncodedSlash s = (sublist ''%2F'' s \<or> sublist ''%2f'' s)"

text \<open>
  Signing as the specification describes it: the request's Gap-Auth header is replaced by
  the value of the response writer's Gap-Auth header, the signature is computed from the
  request in that state, and the signature header is set to it.
\<close>

definition signedRequest :: "externals \<Rightarrow> signatureData \<Rightarrow> responseWriter \<Rightarrow> request \<Rightarrow> request" where
  "signedRequest X sd rw req =
     (let req = req\<lparr>Header := (Header req)(''Gap-Auth'' \<mapsto> [header_Get (rwHeader rw) ''GAP-Auth''])\<rparr>
      in req\<lparr>Header := (Header req)(''Gap-Signature'' \<mapsto>
                 [RequestSignature X (Hash sd) (Key sd) SignatureHeaders req])\<rparr>)"

section \<open>Example values\<close>

text \<open>
  The example of the specification: the target \<^verbatim>\<open>http://backend.local\<close> with the Host header
  not passed on, and a client request \<^verbatim>\<open>GET /a%2Fb?x=1\<close> with \<^verbatim>\<open>Host: client.example\<close>. The
  request also asks for a WebSocket upgrade and brings a Gap-Auth header of its own. The
  functions left open are given simple values; the digest is the key followed by the
  values of the headers to sign.
\<close>

definition exampleExternals :: externals where
  "exampleExternals =
     \<lparr>joinURLPath = (\<lambda>a b. (Path a @ Path b, RawPath a @ RawPath b)),
      EscapedPath = (\<lambda>u. if RawPath u = [] then Path u else RawPath u),
      RequestSignature = (\<lambda>h k hs r. k @ concat (map (header_Get (Header r)) hs)),
      DefaultUpstreamFlushInterval = Second\<rparr>"

definition exampleTarget :: url where
  "exampleTarget =
     \<lparr>Scheme = ''http'', Opaque = '''', URL_Host = ''backend.local'', Path = '''',
      RawPath = '''', ForceQuery = False, RawQuery = ''''\<rparr>"

definition exampleUpstream :: upstreamOptions where
  "exampleUpstream =
     \<lparr>ID = ''backend'', InsecureSkipTLSVerify = False, PassHostHeader = Some False,
      ProxyWebSockets = None, UpstreamFlushInterval = None\<rparr>"

definition exampleRequest :: request where
  "exampleRequest =
     \<lparr>Method = ''GET'',
      URL = \<lparr>Scheme = '''', Opaque = '''', URL_Host = '''', Path = ''/a/b'',
             RawPath = ''/a%2Fb'', ForceQuery = False, RawQuery = ''x=1''\<rparr>,
      Header = [''Connection'' \<mapsto> [''Upgrade''], ''Upgrade'' \<mapsto> [''websocket''],
                ''Gap-Auth'' \<mapsto> [''forged'']],
      Host = ''client.example'',
      RequestURI = ''/a%2Fb?x=1'',
      Scope = Some \<lparr>Upstream = ''''\<rparr>\<rparr>"

definition keepAliveUpgradeRequest :: request where
  "keepAliveUpgradeRequest =
     exampleRequest\<lparr>Header := [''Connection'' \<mapsto> [''keep-alive, Upgrade''],
                                 ''Upgrade'' \<mapsto> [''websocket'']]\<rparr>"

definition closeRequest :: request where
  "closeRequest =
     exampleRequest\<lparr>Header := [''Connection'' \<mapsto> [''close''],
                                 ''Upgrade'' \<mapsto> [''websocket'']]\<rparr>"

definition exampleWriter :: responseWriter where
  "exampleWriter = \<lparr>rwHeader = [''Gap-Auth'' \<mapsto> [''alice'']], Status = None, Body = ''''\<rparr>"

definition emptyWriter :: responseWriter where
  "emptyWriter = \<lparr>rwHeader = Map.empty, Status = None, Body = ''''\<rparr>"

definition exampleSignatureData :: signatureData where
  "exampleSignatureData = \<lparr>Hash = 3, Key = ''secret''\<rparr>"

section \<open>Header keys and flags\<close>

lemma canonical_GAP_Auth: "CanonicalMIMEHeaderKey ''GAP-Auth'' = ''Gap-Auth''"
  by code_simp

lemma canonical_GAP_Signature: "CanonicalMIMEHeaderKey ''GAP-Signature'' = ''Gap-Signature''"
  by code_simp

lemma canonical_Connection: "CanonicalMIMEHeaderKey ''Connection'' = ''Connection''"
  by code_simp

lemma canonical_Upgrade: "CanonicalMIMEHeaderKey ''Upgrade'' = ''Upgrade''"
  by code_simp

lemma header_Get_Connection_signed [simp]:
  "header_Get (h(''Gap-Auth'' \<mapsto> a, ''Gap-Signature'' \<mapsto> b)) ''Connection'' = header_Get h ''Connection''"
  by (simp add: header_Get_def canonical_Connection)

lemma header_Get_Upgrade_signed [simp]:
  "header_Get (h(''Gap-Auth'' \<mapsto> a, ''Gap-Signature'' \<mapsto> b)) ''Upgrade'' = header_Get h ''Upgrade''"
  by (simp add: header_Get_def canonical_Upgrade)

lemma containsEncodedSlash_nonempty: "containsEncodedSlash s \<Longrightarrow> s \<noteq> []"
  by (auto simp: containsEncodedSlash_def)

lemma containsEncodedSlash_append: "containsEncodedSlash s \<Longrightarrow> containsEncodedSlash (p @ s)"
proof -
  have "sublist x (p @ s)" if "sublist x s" for x :: string
  proof -
    from that obtain ps ss where "s = ps @ x @ ss"
      by (auto simp: sublist_def)
    then have "p @ s = (p @ ps) @ x @ ss"
      by simp
    then show ?thesis
      unfolding sublist_def by blast
  qed
  then show "containsEncodedSlash s \<Longrightarrow> containsEncodedSlash (p @ s)"
    by (auto simp: containsEncodedSlash_def)
qed

section \<open>The reverse proxy that newReverseProxy builds\<close>

lemma Director_setProxyDirector:
  "Director (setProxyDirector p) = preserveEscaping \<circ> Director p"
  by (simp add: setProxyDirector_def preserveEscaping_def fun_eq_iff Let_def)

lemma Director_setProxyUpstreamHostHeader:
  "Director (setProxyUpstreamHostHeader p t) = overrideHost t \<circ> Director p"
  by (simp add: setProxyUpstreamHostHeader_def overrideHost_def fun_eq_iff Let_def)

lemma Director_newReverseProxy:
  "Director (newReverseProxy X target up eh) =
     (if PassHostHeader up = Some False
      then overrideHost target \<circ> (preserveEscaping \<circ> rewriteRequestURL X target)
      else preserveEscaping \<circ> rewriteRequestURL X target)"
  by (cases "PassHostHeader up")
    (simp_all add: newReverseProxy_def Director_setProxyDirector
      Director_setProxyUpstreamHostHeader NewSingleHostReverseProxy_def Let_def
      split: option.split)

lemma Transport_newReverseProxy:
  "Transport (newReverseProxy X target up eh) =
     Some (if InsecureSkipTLSVerify up then insecureTransport else defaultTransport)"
  by (simp add: newReverseProxy_def setProxyDirector_def setProxyUpstreamHostHeader_def
      Let_def split: option.split)

lemma ErrorHandler_newReverseProxy:
  "ErrorHandler (newReverseProxy X target up eh) = eh"
  by (simp add: newReverseProxy_def setProxyDirector_def setProxyUpstreamHostHeader_def
      NewSingleHostReverseProxy_def Let_def split: option.split)

lemma Host_rewriteRequestURL: "Host (rewriteRequestURL X target req) = Host req"
  by (simp add: rewriteRequestURL_def Let_def split: prod.split)

lemma RequestURI_rewriteRequestURL: "RequestURI (rewriteRequestURL X target req) = RequestURI req"
  by (simp add: rewriteRequestURL_def Let_def split: prod.split)

lemma Scheme_rewriteRequestURL: "Scheme (URL (rewriteRequestURL X target req)) = Scheme target"
  by (simp add: rewriteRequestURL_def Let_def split: prod.split)

section \<open>The Dispatcher that newHTTPUpstreamProxy builds\<close>

lemma upstream_newHTTPUpstreamProxy: "upstream (newHTTPUpstreamProxy X up u sd eh) = ID up"
  by (simp add: newHTTPUpstreamProxy_def Let_def)

lemma handler_newHTTPUpstreamProxy:
  "handler (newHTTPUpstreamProxy X up u sd eh) = newReverseProxy X (u\<lparr>Path := ''''\<rparr>) up eh"
  by (simp add: newHTTPUpstreamProxy_def Let_def)

lemma wsHandler_newHTTPUpstreamProxy:
  "wsHandler (newHTTPUpstreamProxy X up u sd eh) =
     (if ProxyWebSockets up = Some False then None
      else Some (newWebSocketReverseProxy X (u\<lparr>Path := ''''\<rparr>) (InsecureSkipTLSVerify up)))"
  by (cases "ProxyWebSockets up") (simp_all add: newHTTPUpstreamProxy_def Let_def)

lemma auth_newHTTPUpstreamProxy:
  "auth (newHTTPUpstreamProxy X up u sd eh) =
     map_option (\<lambda>d. NewHmacAuth X (Hash d) (Key d) SignatureHeader SignatureHeaders) sd"
  by (cases sd) (simp_all add: newHTTPUpstreamProxy_def Let_def)

lemma SignRequest_after_GAP_Auth:
  "SignRequest (NewHmacAuth X (Hash sd) (Key sd) SignatureHeader SignatureHeaders)
     (req\<lparr>Header := header_Set (Header req) ''GAP-Auth'' (header_Get (rwHeader rw) ''GAP-Auth'')\<rparr>)
   = signedRequest X sd rw req"
  by (simp add: NewHmacAuth_def signedRequest_def header_Set_def SignatureHeader_def
      canonical_GAP_Auth canonical_GAP_Signature Let_def)

lemma Header_signedRequest:
  "Header (signedRequest X sd rw req) =
     (Header req)(''Gap-Auth'' \<mapsto> [header_Get (rwHeader rw) ''GAP-Auth''],
       ''Gap-Signature'' \<mapsto> [RequestSignature X (Hash sd) (Key sd) SignatureHeaders
          (req\<lparr>Header := (Header req)(''Gap-Auth'' \<mapsto> [header_Get (rwHeader rw) ''GAP-Auth''])\<rparr>)])"
  by (simp add: signedRequest_def Let_def)

lemma Scope_signedRequest: "Scope (signedRequest X sd rw req) = Scope req"
  by (simp add: signedRequest_def Let_def)

lemma ServeHTTP_nil_scope: "Scope req = None \<Longrightarrow> ServeHTTP h rw req = Inl NilPointerDereference"
  by (simp add: ServeHTTP_def GetRequestScope_def)

text \<open>
  The whole of \<open>ServeHTTP\<close> on a request that carries a scope, for a Dispatcher made by
  \<open>newHTTPUpstreamProxy\<close>. Signing touches the Gap-Auth and Gap-Signature headers only, so
  the routing test reads the Connection and Upgrade headers as the client sent them.
\<close>

lemma ServeHTTP_dispatcher:
  assumes "Scope req = Some s"
  shows "ServeHTTP (newHTTPUpstreamProxy X up u sd eh) rw req =
     Inr \<lparr>via = (if ProxyWebSockets up \<noteq> Some False
                     \<and> EqualFold (header_Get (Header req) ''Connection'') ''upgrade''
                     \<and> header_Get (Header req) ''Upgrade'' = ''websocket''
                  then WebSocketProxy else PlainProxy),
          callee = (if ProxyWebSockets up \<noteq> Some False
                     \<and> EqualFold (header_Get (Header req) ''Connection'') ''upgrade''
                     \<and> header_Get (Header req) ''Upgrade'' = ''websocket''
                    then newWebSocketReverseProxy X (u\<lparr>Path := ''''\<rparr>) (InsecureSkipTLSVerify up)
                    else newReverseProxy X (u\<lparr>Path := ''''\<rparr>) up eh),
          writer = rw,
          forwarded = (case sd of
                         None \<Rightarrow> req\<lparr>Scope := Some (s\<lparr>Upstream := ID up\<rparr>)\<rparr>
                       | Some d \<Rightarrow> signedRequest X d rw (req\<lparr>Scope := Some (s\<lparr>Upstream := ID up\<rparr>)\<rparr>))\<rparr>"
proof (cases sd)
  case None
  then show ?thesis
    using assms
    by (simp add: ServeHTTP_def GetRequestScope_def upstream_newHTTPUpstreamProxy
        handler_newHTTPUpstreamProxy wsHandler_newHTTPUpstreamProxy auth_newHTTPUpstreamProxy
        Let_def)
next
  case (Some d)
  have "SignRequest (NewHmacAuth X (Hash d) (Key d) SignatureHeader SignatureHeaders)
          (req\<lparr>Scope := Some (s\<lparr>Upstream := ID up\<rparr>),
               Header := header_Set (Header req) ''GAP-Auth'' (header_Get (rwHeader rw) ''GAP-Auth'')\<rparr>)
        = signedRequest X d rw (req\<lparr>Scope := Some (s\<lparr>Upstream := ID up\<rparr>)\<rparr>)"
    using SignRequest_after_GAP_Auth [of X d "req\<lparr>Scope := Some (s\<lparr>Upstream := ID up\<rparr>)\<rparr>" rw]
    by simp
  with Some show ?thesis
    using assms
    by (simp add: ServeHTTP_def GetRequestScope_def upstream_newHTTPUpstreamProxy
        handler_newHTTPUpstreamProxy wsHandler_newHTTPUpstreamProxy auth_newHTTPUpstreamProxy
        Header_signedRequest Let_def)
qed

section \<open>The example, evaluated\<close>

lemma Scope_exampleRequest: "Scope exampleRequest = Some \<lparr>Upstream = ''''\<rparr>"
  by (simp add: exampleRequest_def)

lemma exampleSignature:
  "RequestSignature exampleExternals (Hash exampleSignatureData) (Key exampleSignatureData)
     SignatureHeaders
     (exampleRequest\<lparr>Scope := Some \<lparr>Upstream = ''backend''\<rparr>,
        Header := (Header exampleRequest)(''Gap-Auth'' \<mapsto> [''alice''])\<rparr>) = ''secretalice''"
  by code_simp

lemma exampleWriter_GAP_Auth: "header_Get (rwHeader exampleWriter) ''GAP-Auth'' = ''alice''"
  by (simp add: header_Get_def canonical_GAP_Auth exampleWriter_def)

section \<open>Routing\<close>

text \<open>
  C1, as the code has it. For every incoming request that carries a request scope, the
  Dispatcher routes to the WebSocket Proxy exactly when a WebSocket handler was built
  (the proxy-websockets flag is unset or true), the first value of the request's
  Connection header is equal to "upgrade" as a whole, letter case aside, and the first
  value of its Upgrade header is the literal "websocket"; every other such request goes to
  the Plain Proxy. The comparison of the Connection header is \<^verbatim>\<open>strings.EqualFold\<close>: an
  equality of the two strings, not a search for a token inside the header value.
\<close>

theorem C1_routing:
  assumes "Scope req = Some s"
  shows "routed (ServeHTTP (newHTTPUpstreamProxy X up u sd eh) rw req) =
     Some (if ProxyWebSockets up \<noteq> Some False
              \<and> EqualFold (header_Get (Header req) ''Connection'') ''upgrade''
              \<and> header_Get (Header req) ''Upgrade'' = ''websocket''
           then WebSocketProxy else PlainProxy)"
  by (simp add: ServeHTTP_dispatcher [OF assms] routed_def)

text \<open>
  The two requests that the specification names: \<^verbatim>\<open>Connection: Upgrade\<close> with
  \<^verbatim>\<open>Upgrade: websocket\<close> reaches the WebSocket Proxy, and \<^verbatim>\<open>Connection: close\<close> reaches the
  Plain Proxy although an Upgrade header is present.
\<close>

theorem C1_routing_witness:
  "Scope exampleRequest = Some \<lparr>Upstream = ''''\<rparr>
   \<and> header_Get (Header exampleRequest) ''Connection'' = ''Upgrade''
   \<and> header_Get (Header exampleRequest) ''Upgrade'' = ''websocket''
   \<and> routed (ServeHTTP (newHTTPUpstreamProxy exampleExternals exampleUpstream exampleTarget None None)
        exampleWriter exampleRequest) = Some WebSocketProxy
   \<and> header_Get (Header closeRequest) ''Connection'' = ''close''
   \<and> header_Get (Header closeRequest) ''Upgrade'' = ''websocket''
   \<and> routed (ServeHTTP (newHTTPUpstreamProxy exampleExternals exampleUpstream exampleTarget None None)
        exampleWriter closeRequest) = Some PlainProxy"
proof -
  have c: "header_Get (Header exampleRequest) ''Connection'' = ''Upgrade''"
    by (simp add: exampleRequest_def header_Get_def canonical_Connection)
  have u: "header_Get (Header exampleRequest) ''Upgrade'' = ''websocket''"
    by (simp add: exampleRequest_def header_Get_def canonical_Upgrade)
  have c': "header_Get (Header closeRequest) ''Connection'' = ''close''"
    by (simp add: closeRequest_def header_Get_def canonical_Connection)
  have u': "header_Get (Header closeRequest) ''Upgrade'' = ''websocket''"
    by (simp add: closeRequest_def header_Get_def canonical_Upgrade)
  have e: "EqualFold ''Upgrade'' ''upgrade''"
    by code_simp
  have e': "\<not> EqualFold ''close'' ''upgrade''"
    by code_simp
  have sc': "Scope closeRequest = Some \<lparr>Upstream = ''''\<rparr>"
    by (simp add: closeRequest_def exampleRequest_def)
  have p: "ProxyWebSockets exampleUpstream \<noteq> Some False"
    by (simp add: exampleUpstream_def)
  have r: "routed (ServeHTTP (newHTTPUpstreamProxy exampleExternals exampleUpstream exampleTarget None None)
        exampleWriter exampleRequest) = Some WebSocketProxy"
    using C1_routing [OF Scope_exampleRequest, of exampleExternals exampleUpstream exampleTarget
        None None exampleWriter]
    by (simp add: c u e p)
  have r': "routed (ServeHTTP (newHTTPUpstreamProxy exampleExternals exampleUpstream exampleTarget None None)
        exampleWriter closeRequest) = Some PlainProxy"
    using C1_routing [OF sc', of exampleExternals exampleUpstream exampleTarget
        None None exampleWriter]
    by (simp add: c' e')
  from Scope_exampleRequest c u r c' u' r' show ?thesis by simp
qed

text \<open>
  A request with \<^verbatim>\<open>Connection: keep-alive, Upgrade\<close> and \<^verbatim>\<open>Upgrade: websocket\<close>: its Connection
  header contains "upgrade", letter case aside, its Upgrade header is "websocket" and the
  Dispatcher has a WebSocket handler, yet the request goes to the Plain Proxy.
\<close>

theorem C1_counterexample:
  "sublist ''upgrade'' (map toLowerASCII (header_Get (Header keepAliveUpgradeRequest) ''Connection''))
   \<and> header_Get (Header keepAliveUpgradeRequest) ''Upgrade'' = ''websocket''
   \<and> wsHandler (newHTTPUpstreamProxy exampleExternals exampleUpstream exampleTarget None None)
        \<noteq> None
   \<and> routed (ServeHTTP (newHTTPUpstreamProxy exampleExternals exampleUpstream exampleTarget None None)
        exampleWriter keepAliveUpgradeRequest) = Some PlainProxy"
proof -
  have c: "header_Get (Header keepAliveUpgradeRequest) ''Connection'' = ''keep-alive, Upgrade''"
    by (simp add: keepAliveUpgradeRequest_def header_Get_def canonical_Connection)
  have u: "header_Get (Header keepAliveUpgradeRequest) ''Upgrade'' = ''websocket''"
    by (simp add: keepAliveUpgradeRequest_def header_Get_def canonical_Upgrade)
  have s: "sublist ''upgrade'' (map toLowerASCII ''keep-alive, Upgrade'')"
    by code_simp
  have e: "\<not> EqualFold ''keep-alive, Upgrade'' ''upgrade''"
    by code_simp
  have sc: "Scope keepAliveUpgradeRequest = Some \<lparr>Upstream = ''''\<rparr>"
    by (simp add: keepAliveUpgradeRequest_def exampleRequest_def)
  have w: "wsHandler (newHTTPUpstreamProxy exampleExternals exampleUpstream exampleTarget None None)
        \<noteq> None"
    by (simp add: wsHandler_newHTTPUpstreamProxy exampleUpstream_def)
  have "routed (ServeHTTP (newHTTPUpstreamProxy exampleExternals exampleUpstream exampleTarget None None)
        exampleWriter keepAliveUpgradeRequest) = Some PlainProxy"
    by (simp add: ServeHTTP_dispatcher [OF sc] routed_def c e)
  with c u s w show ?thesis by simp
qed

section \<open>The Director\<close>

text \<open>
  C2. For every request whose raw request-line target contains a percent-encoded slash,
  the Director of the Plain Proxy leaves the URL with the raw target as its opaque part
  and with the parsed query fields cleared. The target that the URL then yields for the
  request line (\<^verbatim>\<open>URL.RequestURI()\<close>) is the raw target, byte for byte; when the raw target
  starts with two slashes the library puts the target's scheme and a colon in front of
  it. Either way the encoded slash that came in goes out encoded.
\<close>

theorem C2_encoded_target:
  assumes "containsEncodedSlash (RequestURI req)"
  shows "Opaque (URL (Director (newReverseProxy X target up eh) req)) = RequestURI req
    \<and> RawQuery (URL (Director (newReverseProxy X target up eh) req)) = ''''
    \<and> \<not> ForceQuery (URL (Director (newReverseProxy X target up eh) req))
    \<and> url_RequestURI X (URL (Director (newReverseProxy X target up eh) req)) =
        (if prefix ''//'' (RequestURI req) then Scheme target @ '':'' @ RequestURI req
         else RequestURI req)
    \<and> containsEncodedSlash (url_RequestURI X (URL (Director (newReverseProxy X target up eh) req)))"
proof -
  let ?out = "Director (newReverseProxy X target up eh) req"
  have ne: "RequestURI req \<noteq> []"
    using assms by (rule containsEncodedSlash_nonempty)
  have u: "URL ?out = (URL (rewriteRequestURL X target req))
             \<lparr>Opaque := RequestURI req, RawQuery := '''', ForceQuery := False\<rparr>"
    by (simp add: Director_newReverseProxy overrideHost_def preserveEscaping_def
        RequestURI_rewriteRequestURL)
  have r: "url_RequestURI X (URL ?out) =
        (if prefix ''//'' (RequestURI req) then Scheme target @ '':'' @ RequestURI req
         else RequestURI req)"
    using ne by (simp add: u url_RequestURI_def Scheme_rewriteRequestURL)
  have "containsEncodedSlash (url_RequestURI X (URL ?out))"
    using assms containsEncodedSlash_append [OF assms, of "Scheme target @ '':''"]
    by (simp add: r)
  with u r show ?thesis by simp
qed

text \<open>The example of the specification: \<^verbatim>\<open>/a%2Fb?x=1\<close> goes out as it came in.\<close>

theorem C2_encoded_target_witness:
  "containsEncodedSlash (RequestURI exampleRequest)
   \<and> url_RequestURI exampleExternals
        (URL (Director (newReverseProxy exampleExternals exampleTarget exampleUpstream None)
           exampleRequest)) = ''/a%2Fb?x=1''"
proof -
  have h: "containsEncodedSlash (RequestURI exampleRequest)"
    by (simp add: containsEncodedSlash_def exampleRequest_def sublist_code)
  from C2_encoded_target [OF h, of exampleExternals exampleTarget exampleUpstream None]
  have "url_RequestURI exampleExternals
        (URL (Director (newReverseProxy exampleExternals exampleTarget exampleUpstream None)
           exampleRequest)) =
        (if prefix ''//'' (RequestURI exampleRequest)
         then Scheme exampleTarget @ '':'' @ RequestURI exampleRequest
         else RequestURI exampleRequest)"
    by blast
  then show ?thesis
    using h by (simp add: exampleRequest_def)
qed

text \<open>
  C3. When the pass-host-header flag of the upstream is explicitly disabled, the request
  leaves the Director of the Plain Proxy with the target's host as its Host, whatever
  Host the client sent; when the flag is enabled or unset, the request leaves the
  Director with the Host that the client sent.
\<close>

theorem C3_host_header:
  "Host (Director (newReverseProxy X target up eh) req) =
     (if PassHostHeader up = Some False then URL_Host target else Host req)"
  by (simp add: Director_newReverseProxy overrideHost_def preserveEscaping_def
      Host_rewriteRequestURL)

text \<open>
  The example of the specification: with the flag disabled \<^verbatim>\<open>Host: client.example\<close> becomes
  \<^verbatim>\<open>backend.local\<close>; with the flag unset or enabled it stays.
\<close>

theorem C3_host_header_witness:
  "Host (Director (newReverseProxy exampleExternals exampleTarget exampleUpstream None)
     exampleRequest) = ''backend.local''
   \<and> Host (Director (newReverseProxy exampleExternals exampleTarget
        (exampleUpstream\<lparr>PassHostHeader := None\<rparr>) None) exampleRequest) = ''client.example''
   \<and> Host (Director (newReverseProxy exampleExternals exampleTarget
        (exampleUpstream\<lparr>PassHostHeader := Some True\<rparr>) None) exampleRequest) = ''client.example''"
proof -
  have 1: "Host (Director (newReverseProxy exampleExternals exampleTarget exampleUpstream None)
     exampleRequest) = ''backend.local''"
    using C3_host_header [of exampleExternals exampleTarget exampleUpstream None exampleRequest]
    by (simp add: exampleUpstream_def exampleTarget_def)
  have 2: "Host (Director (newReverseProxy exampleExternals exampleTarget
        (exampleUpstream\<lparr>PassHostHeader := None\<rparr>) None) exampleRequest) = ''client.example''"
    using C3_host_header [of exampleExternals exampleTarget
        "exampleUpstream\<lparr>PassHostHeader := None\<rparr>" None exampleRequest]
    by (simp add: exampleRequest_def)
  have 3: "Host (Director (newReverseProxy exampleExternals exampleTarget
        (exampleUpstream\<lparr>PassHostHeader := Some True\<rparr>) None) exampleRequest) = ''client.example''"
    using C3_host_header [of exampleExternals exampleTarget
        "exampleUpstream\<lparr>PassHostHeader := Some True\<rparr>" None exampleRequest]
    by (simp add: exampleRequest_def)
  from 1 2 3 show ?thesis by simp
qed

text \<open>
  C8. The Director of the Plain Proxy is the composition of the rewrite steps in order:
  the base rewrite of the library, then the step that preserves the escaping, then, when
  pass-host-header is disabled, the step that overrides the Host. Each of the two wrappers
  runs the director it wraps before its own assignment, so the Host override is the last
  step and its value is the one that stays.
\<close>

theorem C8_director_composition:
  "Director (newReverseProxy X target up eh) = composedDirector X target up
   \<and> Director (setProxyDirector p) = preserveEscaping \<circ> Director p
   \<and> Director (setProxyUpstreamHostHeader p t) = overrideHost t \<circ> Director p
   \<and> Host (Director (newReverseProxy X target (up\<lparr>PassHostHeader := Some False\<rparr>) eh) req)
       = URL_Host target"
  by (simp add: Director_newReverseProxy composedDirector_def NewSingleHostReverseProxy_def
      Director_setProxyDirector Director_setProxyUpstreamHostHeader overrideHost_def)

section \<open>Transport and failures of the Plain Proxy\<close>

text \<open>
  C5. With insecure-skip-TLS-verify set, the transport of the Plain Proxy is a transport
  in which disabled certificate verification is the only field that is set: no
  environment proxy, no dialer, no HTTP/2 attempt, no idle-connection limit and none of
  the three timeouts. Without it, the transport is the one with all those settings.
\<close>

theorem C5_transport:
  "Transport (newReverseProxy X target up eh) =
     Some (if InsecureSkipTLSVerify up
           then \<lparr>Proxy = None, DialContext = None, ForceAttemptHTTP2 = False,
                 MaxIdleConns = 0, IdleConnTimeout = 0, TLSHandshakeTimeout = 0,
                 ExpectContinueTimeout = 0,
                 TLSClientConfig = Some \<lparr>InsecureSkipVerify = True\<rparr>\<rparr>
           else \<lparr>Proxy = Some ProxyFromEnvironment,
                 DialContext = Some \<lparr>Timeout = 0, KeepAlive = 0\<rparr>,
                 ForceAttemptHTTP2 = True, MaxIdleConns = 100,
                 IdleConnTimeout = 90 * Second, TLSHandshakeTimeout = 10 * Second,
                 ExpectContinueTimeout = 1 * Second, TLSClientConfig = None\<rparr>)"
  by (simp add: Transport_newReverseProxy insecureTransport_def zeroTransport_def
      defaultTransport_def)

text \<open>
  C6, as the code has it. When the round trip to the upstream fails, a Plain Proxy built
  with an error handler calls that handler exactly once, with the response writer, the
  outbound request and the error, and the response is what the handler makes of it. A
  Plain Proxy built without an error handler keeps the library's default: status 502 is
  written if no status was written before, and the body is left as it is.
\<close>

theorem C6_error_handler:
  "roundTripFailed (newReverseProxy X target up (Some h)) rw outreq err =
     (h rw outreq err, [(outreq, err)])
   \<and> roundTripFailed (newReverseProxy X target up None) rw outreq err =
       (rw\<lparr>Status := Some (case Status rw of None \<Rightarrow> 502 | Some c \<Rightarrow> c)\<rparr>, [])
   \<and> Body (fst (roundTripFailed (newReverseProxy X target up None) rw outreq err)) = Body rw"
  by (simp add: roundTripFailed_def ErrorHandler_newReverseProxy defaultErrorHandler_def
      WriteHeader_def StatusBadGateway_def split: option.split)

text \<open>
  No error handler is configured, nothing has been written yet and the connection to the
  upstream is refused: the response has an empty body.
\<close>

theorem C6_counterexample:
  "ErrorHandler (newReverseProxy exampleExternals exampleTarget exampleUpstream None) = None
   \<and> Body (fst (roundTripFailed
        (newReverseProxy exampleExternals exampleTarget exampleUpstream None)
        emptyWriter exampleRequest (Error ''dial tcp: connection refused''))) = ''''"
  by (simp add: roundTripFailed_def ErrorHandler_newReverseProxy defaultErrorHandler_def
      WriteHeader_def emptyWriter_def)

section \<open>The Dispatcher's entry point\<close>

text \<open>
  C4. With a SignatureContext configured, the request that the Dispatcher hands to the
  handler it has chosen, whichever of the two, already carries the signature header, and
  its value is the signature of the request as it stood with the scope stamped and the
  Gap-Auth header taken from the response writer. Without a SignatureContext the
  Dispatcher hands on the request with the scope stamped and the headers exactly as they
  came: it attaches no signature header.
\<close>

theorem C4_signature_before_forwarding:
  assumes "Scope req = Some s"
  shows "map_option (\<lambda>out. Header out (CanonicalMIMEHeaderKey SignatureHeader))
           (handed (ServeHTTP (newHTTPUpstreamProxy X up u (Some sd) eh) rw req)) =
         Some (Some [RequestSignature X (Hash sd) (Key sd) SignatureHeaders
           (req\<lparr>Scope := Some (s\<lparr>Upstream := ID up\<rparr>),
                Header := (Header req)(''Gap-Auth'' \<mapsto> [header_Get (rwHeader rw) ''GAP-Auth''])\<rparr>)])
    \<and> handed (ServeHTTP (newHTTPUpstreamProxy X up u None eh) rw req) =
         Some (req\<lparr>Scope := Some (s\<lparr>Upstream := ID up\<rparr>)\<rparr>)
    \<and> map_option Header (handed (ServeHTTP (newHTTPUpstreamProxy X up u None eh) rw req)) =
         Some (Header req)"
  by (simp add: ServeHTTP_dispatcher [OF assms] handed_def Header_signedRequest
      SignatureHeader_def canonical_GAP_Signature)

theorem C4_signature_before_forwarding_witness:
  "Scope exampleRequest = Some \<lparr>Upstream = ''''\<rparr>
   \<and> map_option (\<lambda>out. Header out ''Gap-Signature'')
        (handed (ServeHTTP
           (newHTTPUpstreamProxy exampleExternals exampleUpstream exampleTarget
              (Some exampleSignatureData) None)
           exampleWriter exampleRequest)) = Some (Some [''secretalice''])
   \<and> map_option (\<lambda>out. Header out ''Gap-Signature'')
        (handed (ServeHTTP
           (newHTTPUpstreamProxy exampleExternals exampleUpstream exampleTarget None None)
           exampleWriter exampleRequest)) = Some None"
proof -
  note t = C4_signature_before_forwarding [OF Scope_exampleRequest, of exampleExternals
      exampleUpstream exampleTarget exampleSignatureData None exampleWriter]
  have i: "ID exampleUpstream = ''backend''"
    by (simp add: exampleUpstream_def)
  have 1: "map_option (\<lambda>out. Header out ''Gap-Signature'')
        (handed (ServeHTTP
           (newHTTPUpstreamProxy exampleExternals exampleUpstream exampleTarget
              (Some exampleSignatureData) None)
           exampleWriter exampleRequest)) = Some (Some [''secretalice''])"
    using t
    by (simp add: SignatureHeader_def canonical_GAP_Signature exampleWriter_GAP_Auth i
        exampleSignature)
  have 2: "map_option (\<lambda>out. Header out ''Gap-Signature'')
        (handed (ServeHTTP
           (newHTTPUpstreamProxy exampleExternals exampleUpstream exampleTarget None None)
           exampleWriter exampleRequest)) = Some None"
    using t by (simp add: exampleRequest_def)
  from Scope_exampleRequest 1 2 show ?thesis by simp
qed

text \<open>
  C7. A request without a request scope makes the entry point of the Dispatcher panic; it
  does not recover and hands nothing on. For a request with a scope, the scope that the
  chosen handler sees has its upstream field set to the Dispatcher's upstream identifier,
  which is the identifier of the upstream configuration.
\<close>

theorem C7_request_scope:
  "(Scope req = None \<longrightarrow>
      ServeHTTP (newHTTPUpstreamProxy X up u sd eh) rw req = Inl NilPointerDereference)
   \<and> (\<forall>s. Scope req = Some s \<longrightarrow>
        map_option Scope (handed (ServeHTTP (newHTTPUpstreamProxy X up u sd eh) rw req)) =
          Some (Some (s\<lparr>Upstream := ID up\<rparr>)))
   \<and> upstream (newHTTPUpstreamProxy X up u sd eh) = ID up"
proof (intro conjI allI impI)
  assume "Scope req = None"
  then show "ServeHTTP (newHTTPUpstreamProxy X up u sd eh) rw req = Inl NilPointerDereference"
    by (rule ServeHTTP_nil_scope)
next
  fix s
  assume "Scope req = Some s"
  then show "map_option Scope (handed (ServeHTTP (newHTTPUpstreamProxy X up u sd eh) rw req)) =
          Some (Some (s\<lparr>Upstream := ID up\<rparr>))"
    by (cases sd) (simp_all add: ServeHTTP_dispatcher handed_def Scope_signedRequest)
next
  show "upstream (newHTTPUpstreamProxy X up u sd eh) = ID up"
    by (rule upstream_newHTTPUpstreamProxy)
qed

theorem C7_request_scope_witness:
  "Scope (exampleRequest\<lparr>Scope := None\<rparr>) = None
   \<and> ServeHTTP (newHTTPUpstreamProxy exampleExternals exampleUpstream exampleTarget None None)
        exampleWriter (exampleRequest\<lparr>Scope := None\<rparr>) = Inl NilPointerDereference
   \<and> Scope exampleRequest = Some \<lparr>Upstream = ''''\<rparr>
   \<and> map_option Scope (handed (ServeHTTP
        (newHTTPUpstreamProxy exampleExternals exampleUpstream exampleTarget None None)
        exampleWriter exampleRequest)) = Some (Some \<lparr>Upstream = ''backend''\<rparr>)"
proof -
  have n: "Scope (exampleRequest\<lparr>Scope := None\<rparr>) = None"
    by simp
  note a = C7_request_scope [of "exampleRequest\<lparr>Scope := None\<rparr>" exampleExternals
      exampleUpstream exampleTarget None None exampleWriter]
  note b = C7_request_scope [of exampleRequest exampleExternals
      exampleUpstream exampleTarget None None exampleWriter]
  have 1: "ServeHTTP (newHTTPUpstreamProxy exampleExternals exampleUpstream exampleTarget None None)
        exampleWriter (exampleRequest\<lparr>Scope := None\<rparr>) = Inl NilPointerDereference"
    using a n by blast
  have 2: "map_option Scope (handed (ServeHTTP
        (newHTTPUpstreamProxy exampleExternals exampleUpstream exampleTarget None None)
        exampleWriter exampleRequest)) = Some (Some \<lparr>Upstream = ''backend''\<rparr>)"
  proof -
    from b have "\<forall>s. Scope exampleRequest = Some s \<longrightarrow>
        map_option Scope (handed (ServeHTTP
          (newHTTPUpstreamProxy exampleExternals exampleUpstream exampleTarget None None)
          exampleWriter exampleRequest)) = Some (Some (s\<lparr>Upstream := ID exampleUpstream\<rparr>))"
      by (rule conjunct1 [OF conjunct2])
    with Scope_exampleRequest have "map_option Scope (handed (ServeHTTP
          (newHTTPUpstreamProxy exampleExternals exampleUpstream exampleTarget None None)
          exampleWriter exampleRequest)) =
          Some (Some (\<lparr>Upstream = ''''\<rparr>\<lparr>Upstream := ID exampleUpstream\<rparr>))"
      by blast
    then show ?thesis
      by (simp add: exampleUpstream_def)
  qed
  from n 1 Scope_exampleRequest 2 show ?thesis by simp
qed

text \<open>
  C9. The Dispatcher has a WebSocket handler exactly when the proxy-websockets flag is
  unset or true. When the flag is explicitly false no WebSocket handler is built, no
  request is routed to the WebSocket Proxy, and every request that carries a scope, the
  one with \<^verbatim>\<open>Connection: Upgrade\<close> and \<^verbatim>\<open>Upgrade: websocket\<close> included, is handed to the Plain
  Proxy.
\<close>

theorem C9_websockets_disabled:
  "(wsHandler (newHTTPUpstreamProxy X up u sd eh) \<noteq> None) =
     (ProxyWebSockets up = None \<or> ProxyWebSockets up = Some True)
   \<and> (ProxyWebSockets up = Some False \<longrightarrow>
        wsHandler (newHTTPUpstreamProxy X up u sd eh) = None
        \<and> routed (ServeHTTP (newHTTPUpstreamProxy X up u sd eh) rw req) \<noteq> Some WebSocketProxy
        \<and> (Scope req \<noteq> None \<longrightarrow>
             routed (ServeHTTP (newHTTPUpstreamProxy X up u sd eh) rw req) = Some PlainProxy
             \<and> invoked (ServeHTTP (newHTTPUpstreamProxy X up u sd eh) rw req) =
                 Some (handler (newHTTPUpstreamProxy X up u sd eh))))"
proof (intro conjI impI)
  show "(wsHandler (newHTTPUpstreamProxy X up u sd eh) \<noteq> None) =
     (ProxyWebSockets up = None \<or> ProxyWebSockets up = Some True)"
    by (cases "ProxyWebSockets up") (auto simp: wsHandler_newHTTPUpstreamProxy)
next
  assume "ProxyWebSockets up = Some False"
  then show "wsHandler (newHTTPUpstreamProxy X up u sd eh) = None"
    by (simp add: wsHandler_newHTTPUpstreamProxy)
next
  assume off: "ProxyWebSockets up = Some False"
  show "routed (ServeHTTP (newHTTPUpstreamProxy X up u sd eh) rw req) \<noteq> Some WebSocketProxy"
  proof (cases "Scope req")
    case None
    then show ?thesis
      by (simp add: ServeHTTP_nil_scope routed_def)
  next
    case (Some s)
    then show ?thesis
      using off by (simp add: ServeHTTP_dispatcher routed_def)
  qed
next
  assume off: "ProxyWebSockets up = Some False" and "Scope req \<noteq> None"
  then obtain s where "Scope req = Some s"
    by auto
  then show "routed (ServeHTTP (newHTTPUpstreamProxy X up u sd eh) rw req) = Some PlainProxy"
    using off by (simp add: ServeHTTP_dispatcher routed_def)
next
  assume off: "ProxyWebSockets up = Some False" and "Scope req \<noteq> None"
  then obtain s where "Scope req = Some s"
    by auto
  then show "invoked (ServeHTTP (newHTTPUpstreamProxy X up u sd eh) rw req) =
      Some (handler (newHTTPUpstreamProxy X up u sd eh))"
    using off by (simp add: ServeHTTP_dispatcher invoked_def handler_newHTTPUpstreamProxy)
qed

theorem C9_websockets_disabled_witness:
  "ProxyWebSockets (exampleUpstream\<lparr>ProxyWebSockets := Some False\<rparr>) = Some False
   \<and> header_Get (Header exampleRequest) ''Connection'' = ''Upgrade''
   \<and> header_Get (Header exampleRequest) ''Upgrade'' = ''websocket''
   \<and> Scope exampleRequest \<noteq> None
   \<and> wsHandler (newHTTPUpstreamProxy exampleExternals
        (exampleUpstream\<lparr>ProxyWebSockets := Some False\<rparr>) exampleTarget None None) = None
   \<and> routed (ServeHTTP (newHTTPUpstreamProxy exampleExternals
        (exampleUpstream\<lparr>ProxyWebSockets := Some False\<rparr>) exampleTarget None None)
        exampleWriter exampleRequest) = Some PlainProxy"
proof -
  note t = C9_websockets_disabled [of exampleExternals
      "exampleUpstream\<lparr>ProxyWebSockets := Some False\<rparr>" exampleTarget None None
      exampleWriter exampleRequest]
  have off: "ProxyWebSockets (exampleUpstream\<lparr>ProxyWebSockets := Some False\<rparr>) = Some False"
    by simp
  have c: "header_Get (Header exampleRequest) ''Connection'' = ''Upgrade''"
    by (simp add: exampleRequest_def header_Get_def canonical_Connection)
  have u: "header_Get (Header exampleRequest) ''Upgrade'' = ''websocket''"
    by (simp add: exampleRequest_def header_Get_def canonical_Upgrade)
  have sc: "Scope exampleRequest \<noteq> None"
    by (simp add: exampleRequest_def)
  from t off sc have "wsHandler (newHTTPUpstreamProxy exampleExternals
        (exampleUpstream\<lparr>ProxyWebSockets := Some False\<rparr>) exampleTarget None None) = None
   \<and> routed (ServeHTTP (newHTTPUpstreamProxy exampleExternals
        (exampleUpstream\<lparr>ProxyWebSockets := Some False\<rparr>) exampleTarget None None)
        exampleWriter exampleRequest) = Some PlainProxy"
    by blast
  with off c u sc show ?thesis by blast
qed

text \<open>
  C10. With signing configured, the request that is signed and handed on has as its
  Gap-Auth header the single value of the response writer's Gap-Auth header (the empty
  string when the writer has none), set just before the signature is computed. Whatever
  the client sent under Gap-Auth has no effect on the outcome.
\<close>

theorem C10_gap_auth_from_response_writer:
  assumes "Scope req = Some s"
  shows "handed (ServeHTTP (newHTTPUpstreamProxy X up u (Some sd) eh) rw req) =
           Some (signedRequest X sd rw (req\<lparr>Scope := Some (s\<lparr>Upstream := ID up\<rparr>)\<rparr>))
    \<and> map_option (\<lambda>out. Header out ''Gap-Auth'')
           (handed (ServeHTTP (newHTTPUpstreamProxy X up u (Some sd) eh) rw req)) =
         Some (Some [header_Get (rwHeader rw) ''GAP-Auth''])
    \<and> header_Get (rwHeader rw) ''GAP-Auth'' =
         (case rwHeader rw ''Gap-Auth'' of None \<Rightarrow> '''' | Some [] \<Rightarrow> '''' | Some (v # _) \<Rightarrow> v)
    \<and> ServeHTTP (newHTTPUpstreamProxy X up u (Some sd) eh) rw
         (req\<lparr>Header := (Header req)(''Gap-Auth'' := clientValue)\<rparr>) =
       ServeHTTP (newHTTPUpstreamProxy X up u (Some sd) eh) rw req"
proof -
  let ?h = "newHTTPUpstreamProxy X up u (Some sd) eh"
  let ?req' = "req\<lparr>Header := (Header req)(''Gap-Auth'' := clientValue)\<rparr>"
  have out: "handed (ServeHTTP ?h rw req) =
           Some (signedRequest X sd rw (req\<lparr>Scope := Some (s\<lparr>Upstream := ID up\<rparr>)\<rparr>))"
    by (simp add: ServeHTTP_dispatcher [OF assms] handed_def)
  have gap: "map_option (\<lambda>out. Header out ''Gap-Auth'') (handed (ServeHTTP ?h rw req)) =
         Some (Some [header_Get (rwHeader rw) ''GAP-Auth''])"
    by (simp add: out Header_signedRequest)
  have get: "header_Get (rwHeader rw) ''GAP-Auth'' =
         (case rwHeader rw ''Gap-Auth'' of None \<Rightarrow> '''' | Some [] \<Rightarrow> '''' | Some (v # _) \<Rightarrow> v)"
    by (simp add: header_Get_def canonical_GAP_Auth)
  have sc: "Scope ?req' = Some s"
    using assms by simp
  have conn: "header_Get (Header ?req') ''Connection'' = header_Get (Header req) ''Connection''"
    by (simp add: header_Get_def canonical_Connection)
  have upg: "header_Get (Header ?req') ''Upgrade'' = header_Get (Header req) ''Upgrade''"
    by (simp add: header_Get_def canonical_Upgrade)
  have same: "signedRequest X sd rw (?req'\<lparr>Scope := Some (s\<lparr>Upstream := ID up\<rparr>)\<rparr>) =
        signedRequest X sd rw (req\<lparr>Scope := Some (s\<lparr>Upstream := ID up\<rparr>)\<rparr>)"
    by (simp add: signedRequest_def Let_def)
  have "ServeHTTP ?h rw ?req' = ServeHTTP ?h rw req"
    unfolding ServeHTTP_dispatcher [OF sc] ServeHTTP_dispatcher [OF assms] conn upg
    using same by simp
  with out gap get show ?thesis by simp
qed

text \<open>
  The client sends \<^verbatim>\<open>Gap-Auth: forged\<close>, the response writer holds \<^verbatim>\<open>Gap-Auth: alice\<close>: the
  request handed on carries \<^verbatim>\<open>alice\<close>.
\<close>

theorem C10_gap_auth_from_response_writer_witness:
  "Scope exampleRequest = Some \<lparr>Upstream = ''''\<rparr>
   \<and> Header exampleRequest ''Gap-Auth'' = Some [''forged'']
   \<and> rwHeader exampleWriter ''Gap-Auth'' = Some [''alice'']
   \<and> map_option (\<lambda>out. Header out ''Gap-Auth'')
        (handed (ServeHTTP
           (newHTTPUpstreamProxy exampleExternals exampleUpstream exampleTarget
              (Some exampleSignatureData) None)
           exampleWriter exampleRequest)) = Some (Some [''alice''])"
proof -
  note t = C10_gap_auth_from_response_writer [OF Scope_exampleRequest, of exampleExternals
      exampleUpstream exampleTarget exampleSignatureData None exampleWriter]
  have 1: "Header exampleRequest ''Gap-Auth'' = Some [''forged'']"
    by (simp add: exampleRequest_def)
  have 2: "rwHeader exampleWriter ''Gap-Auth'' = Some [''alice'']"
    by (simp add: exampleWriter_def)
  have 3: "map_option (\<lambda>out. Header out ''Gap-Auth'')
        (handed (ServeHTTP
           (newHTTPUpstreamProxy exampleExternals exampleUpstream exampleTarget
              (Some exampleSignatureData) None)
           exampleWriter exampleRequest)) = Some (Some [''alice''])"
  proof -
    from t have "map_option (\<lambda>out. Header out ''Gap-Auth'')
        (handed (ServeHTTP
           (newHTTPUpstreamProxy exampleExternals exampleUpstream exampleTarget
              (Some exampleSignatureData) None)
           exampleWriter exampleRequest)) =
        Some (Some [header_Get (rwHeader exampleWriter) ''GAP-Auth''])"
      by (rule conjunct1 [OF conjunct2])
    then show ?thesis
      by (simp only: exampleWriter_GAP_Auth)
  qed
  from Scope_exampleRequest 1 2 3 show ?thesis by simp
qed

end
